theory Spec2Isabelle
  imports Complex_Main "HOL-Library.AList"
begin

section \<open>Numbers\<close>

text \<open>
  The program computes with Python floats.  They are modelled as the real numbers: every
  operation is exact, there is no rounding, no overflow and no infinity or NaN.  What
  remains of float behaviour is the exception of a division by zero.  Exceptions that no
  \<^verbatim>\<open>try\<close> catches are values of type \<open>exn\<close>.
\<close>

datatype exn = ValueError | ZeroDivisionError | TypeError | IndexError | UnboundLocalError

definition float_div :: "real \<Rightarrow> real \<Rightarrow> exn + real" where
  "float_div a b = (if b = 0 then Inl ZeroDivisionError else Inr (a / b))"

text \<open>
  Python 3's builtin \<^verbatim>\<open>round(x)\<close> with one argument returns the nearest integer and
  sends an exact tie to the even neighbour.
\<close>

definition round_builtin :: "real \<Rightarrow> int" where
  "round_builtin x =
     (let f = \<lfloor>x\<rfloor>; d = x - of_int f
      in if d < 1 / 2 then f
         else if 1 / 2 < d then f + 1
         else if even f then f else f + 1)"

text \<open>\<^verbatim>\<open>def round2(num): return round(num + 0.1)\<close>\<close>

definition round2 :: "real \<Rightarrow> int" where
  "round2 num = round_builtin (num + 1 / 10)"


section \<open>Geometry\<close>

text \<open>
  The size of the active area, lines 199 to 215 of \<^verbatim>\<open>main\<close>.  The arguments are
  \<^verbatim>\<open>args.full\<close>, \<^verbatim>\<open>args.width\<close>, \<^verbatim>\<open>args.height\<close> (already in lines), the screen aspect
  and the tablet area.  The second comparison of the full branch divides the same numbers
  again; it cannot raise once the first comparison has been evaluated.
\<close>

definition calc_size ::
  "bool \<Rightarrow> real option \<Rightarrow> real option \<Rightarrow> real \<Rightarrow> real \<Rightarrow> real \<Rightarrow> real \<Rightarrow> exn + (real \<times> real)"
where
  "calc_size full width height screen_width screen_height tablet_width tablet_height =
     (if full then
        (case float_div screen_width screen_height of
           Inl e \<Rightarrow> Inl e
         | Inr screen \<Rightarrow>
            (case float_div tablet_width tablet_height of
               Inl e \<Rightarrow> Inl e
             | Inr tablet \<Rightarrow>
                 if screen > tablet then
                   (case float_div screen_height screen_width of
                      Inl e \<Rightarrow> Inl e
                    | Inr r \<Rightarrow> Inr (tablet_width, tablet_width * r))
                 else if screen < tablet then
                   Inr (tablet_height * screen, tablet_height)
                 else Inr (tablet_width, tablet_height)))
      else
        (case width of
           None \<Rightarrow>
             (case float_div screen_width screen_height of
                Inl e \<Rightarrow> Inl e
              | Inr r \<Rightarrow>
                 (case height of
                    None \<Rightarrow> Inl TypeError
                  | Some h \<Rightarrow> Inr (h * r, h)))
         | Some w \<Rightarrow>
             (case height of
                None \<Rightarrow>
                  (case float_div screen_height screen_width of
                     Inl e \<Rightarrow> Inl e
                   | Inr r \<Rightarrow> Inr (w, w * r))
              | Some h \<Rightarrow> Inr (w, h))))"

text \<open>The origin of the active area, lines 217 to 244.\<close>

definition calc_offset :: "string \<Rightarrow> real \<Rightarrow> real \<Rightarrow> real \<Rightarrow> real \<Rightarrow> real \<times> real" where
  "calc_offset align tablet_width tablet_height width height =
     (if align \<noteq> ''topleft'' then
        (let x_center_offset = tablet_width / 2 - width / 2;
             x_full_offset = tablet_width - width;
             y_center_offset = tablet_height / 2 - height / 2;
             y_full_offset = tablet_height - height
         in if align = ''top'' then (x_center_offset, 0)
            else if align = ''topright'' then (x_full_offset, 0)
            else if align = ''left'' then (0, y_center_offset)
            else if align = ''center'' then (x_center_offset, y_center_offset)
            else if align = ''right'' then (x_full_offset, y_center_offset)
            else if align = ''bottomleft'' then (0, y_full_offset)
            else if align = ''bottom'' then (x_center_offset, y_full_offset)
            else if align = ''bottomright'' then (x_full_offset, y_full_offset)
            else (0, 0))
      else (0, 0))"


text \<open>
  The far corner and the bounds check, lines 246 to 252: the result is the message of
  \<^verbatim>\<open>sys.exit\<close> or the four integers handed to \<^verbatim>\<open>set_area\<close>.
\<close>

datatype exit_message =
    Usage_error
  | Tool_not_found
  | Not_together "string list"
  | Exactly_one "string list"
  | No_tablet
  | Invalid_device string
  | Invalid_aspect string
  | Invalid_device_area string
  | Width_too_big
  | Height_too_big

definition check_bounds ::
  "real \<Rightarrow> real \<Rightarrow> real \<Rightarrow> real \<Rightarrow> real \<Rightarrow> real \<Rightarrow> exit_message + (int \<times> int \<times> int \<times> int)"
where
  "check_bounds tablet_width tablet_height width height offset_x offset_y =
     (let x2 = offset_x + width; y2 = offset_y + height
      in if round2 x2 > round2 tablet_width then Inl Width_too_big
         else if round2 y2 > round2 tablet_height then Inl Height_too_big
         else Inr (round2 offset_x, round2 offset_y, round2 x2, round2 y2))"


section \<open>Strings\<close>

text \<open>
  Strings are lists of characters; the model covers ASCII text.  The functions below are
  Python's string methods and conversions, with Python's results on every input:
  \<^verbatim>\<open>s.strip()\<close>, \<^verbatim>\<open>s.split(sep)\<close> for a separator of one character, \<^verbatim>\<open>s.split()\<close>,
  \<^verbatim>\<open>s.endswith(t)\<close>, \<^verbatim>\<open>int(s)\<close>, \<^verbatim>\<open>float(s)\<close> and \<^verbatim>\<open>str(n)\<close>.
\<close>

definition isspace :: "char \<Rightarrow> bool" where
  "isspace c \<longleftrightarrow>
     c \<in> set [CHR 0x09, CHR 0x0A, CHR 0x0B, CHR 0x0C, CHR 0x0D,
              CHR 0x1C, CHR 0x1D, CHR 0x1E, CHR 0x1F, CHR 0x20]"

definition str_strip :: "string \<Rightarrow> string" where
  "str_strip s = rev (dropWhile isspace (rev (dropWhile isspace s)))"

text \<open>\<^verbatim>\<open>s.split(sep)\<close>: one more piece than there are separators, empty pieces kept.\<close>

fun str_split :: "char \<Rightarrow> string \<Rightarrow> string list" where
  "str_split sep [] = [[]]"
| "str_split sep (c # cs) =
     (let r = str_split sep cs
      in if c = sep then [] # r else (c # hd r) # tl r)"

text \<open>\<^verbatim>\<open>s.split()\<close>: the maximal runs of characters that are not whitespace.\<close>

fun split_ws :: "string \<Rightarrow> string \<Rightarrow> string list" where
  "split_ws cur [] = (if cur = [] then [] else [cur])"
| "split_ws cur (c # cs) =
     (if isspace c then (if cur = [] then split_ws [] cs else cur # split_ws [] cs)
      else split_ws (cur @ [c]) cs)"

definition str_split_ws :: "string \<Rightarrow> string list" where
  "str_split_ws s = split_ws [] s"

definition str_endswith :: "string \<Rightarrow> string \<Rightarrow> bool" where
  "str_endswith s suffix \<longleftrightarrow> take (length suffix) (rev s) = rev suffix"

definition isdigit :: "char \<Rightarrow> bool" where
  "isdigit c \<longleftrightarrow> 48 \<le> (of_char c :: nat) \<and> (of_char c :: nat) \<le> 57"

definition digit_value :: "char \<Rightarrow> nat" where
  "digit_value c = of_char c - 48"

text \<open>
  A run of decimal digits in which single underscores may separate digits; the result is
  the list of the digits' values.
\<close>

fun digitpart :: "string \<Rightarrow> nat list option" where
  "digitpart [] = None"
| "digitpart [c] = (if isdigit c then Some [digit_value c] else None)"
| "digitpart (c # d # cs) =
     (if isdigit c then
        (if d = CHR ''_'' then map_option (Cons (digit_value c)) (digitpart cs)
         else map_option (Cons (digit_value c)) (digitpart (d # cs)))
      else None)"

definition digits_value :: "nat list \<Rightarrow> nat" where
  "digits_value ds = foldl (\<lambda>a d. 10 * a + d) 0 ds"

text \<open>An optional sign in front of a digit part.\<close>

definition signed_digits :: "string \<Rightarrow> int option" where
  "signed_digits s =
     (case s of
        [] \<Rightarrow> None
      | c # cs \<Rightarrow>
          if c = CHR ''-'' then map_option (\<lambda>ds. - int (digits_value ds)) (digitpart cs)
          else if c = CHR ''+'' then map_option (\<lambda>ds. int (digits_value ds)) (digitpart cs)
          else map_option (\<lambda>ds. int (digits_value ds)) (digitpart s))"

text \<open>
  \<^verbatim>\<open>int(s)\<close>; \<open>None\<close> stands for the ValueError.  On ASCII text the conversions
  \<^verbatim>\<open>int\<close> and \<^verbatim>\<open>float\<close> skip the six whitespace characters of C around the number, fewer
  than \<^verbatim>\<open>strip\<close> removes.
\<close>

definition isspace_c :: "char \<Rightarrow> bool" where
  "isspace_c c \<longleftrightarrow> c \<in> set [CHR 0x09, CHR 0x0A, CHR 0x0B, CHR 0x0C, CHR 0x0D, CHR 0x20]"

definition strip_c :: "string \<Rightarrow> string" where
  "strip_c s = rev (dropWhile isspace_c (rev (dropWhile isspace_c s)))"

definition int_builtin :: "string \<Rightarrow> int option" where
  "int_builtin s = signed_digits (strip_c s)"

text \<open>
  \<^verbatim>\<open>float(s)\<close> on decimal literals: a sign, an integer part, a fraction and an exponent,
  of which the integer part or the fraction is there.  The spellings of infinity and NaN,
  which \<^verbatim>\<open>float\<close> accepts as well, have no real value and are \<open>None\<close> here; in the
  source a run that reads such a number from the device raises later, in \<^verbatim>\<open>round\<close>,
  before it writes the area.
\<close>

definition mantissa :: "string \<Rightarrow> real option" where
  "mantissa m =
     (let ip = takeWhile (\<lambda>c. c \<noteq> CHR ''.'') m;
          rest = dropWhile (\<lambda>c. c \<noteq> CHR ''.'') m
      in if rest = [] then map_option (\<lambda>ds. real (digits_value ds)) (digitpart ip)
         else
           (let fp = tl rest
            in if ip = [] then
                 map_option (\<lambda>fs. real (digits_value fs) / 10 ^ length fs) (digitpart fp)
               else if fp = [] then
                 map_option (\<lambda>ds. real (digits_value ds)) (digitpart ip)
               else
                 (case digitpart ip of
                    None \<Rightarrow> None
                  | Some ds \<Rightarrow>
                      map_option
                        (\<lambda>fs. real (digits_value ds) + real (digits_value fs) / 10 ^ length fs)
                        (digitpart fp))))"

definition unsigned_float :: "string \<Rightarrow> real option" where
  "unsigned_float body =
     (let m = takeWhile (\<lambda>c. c \<noteq> CHR ''e'' \<and> c \<noteq> CHR ''E'') body;
          rest = dropWhile (\<lambda>c. c \<noteq> CHR ''e'' \<and> c \<noteq> CHR ''E'') body
      in if rest = [] then mantissa m
         else
           (case mantissa m of
              None \<Rightarrow> None
            | Some x \<Rightarrow>
                (case signed_digits (tl rest) of
                   None \<Rightarrow> None
                 | Some e \<Rightarrow> Some (if 0 \<le> e then x * 10 ^ nat e else x / 10 ^ nat (- e)))))"

definition float_builtin :: "string \<Rightarrow> real option" where
  "float_builtin s =
     (case strip_c s of
        [] \<Rightarrow> None
      | c # cs \<Rightarrow>
          if c = CHR ''-'' then map_option uminus (unsigned_float cs)
          else if c = CHR ''+'' then unsigned_float cs
          else unsigned_float (c # cs))"

text \<open>\<^verbatim>\<open>str(n)\<close> of an integer, as the f-string of \<^verbatim>\<open>set_area\<close> formats it.\<close>

fun str_nat :: "nat \<Rightarrow> string" where
  "str_nat n =
     (if n < 10 then [''0123456789'' ! n]
      else str_nat (n div 10) @ [''0123456789'' ! (n mod 10)])"

definition str_int :: "int \<Rightarrow> string" where
  "str_int i = (if i < 0 then CHR ''-'' # str_nat (nat (- i)) else str_nat (nat i))"

text \<open>\<^verbatim>\<open>def convert_aspect(aspect)\<close> and \<^verbatim>\<open>def convert_size(size)\<close>\<close>

definition convert_aspect :: "string \<Rightarrow> exn + (real \<times> real)" where
  "convert_aspect aspect =
     (case str_split CHR '':'' aspect of
        [width, height] \<Rightarrow>
          (case float_builtin width of
             None \<Rightarrow> Inl ValueError
           | Some w \<Rightarrow>
               (case float_builtin height of
                  None \<Rightarrow> Inl ValueError
                | Some h \<Rightarrow> Inr (w, h)))
      | _ \<Rightarrow> Inl ValueError)"

definition convert_size :: "string \<Rightarrow> exn + (real \<times> real)" where
  "convert_size area =
     (case str_split CHR ''x'' area of
        [width, height] \<Rightarrow>
          (case float_builtin width of
             None \<Rightarrow> Inl ValueError
           | Some w \<Rightarrow>
               (case float_builtin height of
                  None \<Rightarrow> Inl ValueError
                | Some h \<Rightarrow> Inr (w, h)))
      | _ \<Rightarrow> Inl ValueError)"


section \<open>The external tool\<close>

text \<open>
  Every \<^verbatim>\<open>subprocess.run\<close> starts \<^verbatim>\<open>xsetwacom\<close> with an argument list.  The model keeps
  the list of the commands run so far, in order; the environment gives the standard output
  of a command as a function of the commands run before it, so that the tool may answer
  differently after a write.  A command with \<^verbatim>\<open>--set\<close> writes to the device, the others
  read.  The tool is taken to start, to end and to print text that decodes, so that
  \<^verbatim>\<open>subprocess.run\<close> and \<^verbatim>\<open>decode\<close> themselves do not raise.  What the program prints
  (the verbose echo of the command, the dry-run warnings) is not part of the model; the
  message of \<^verbatim>\<open>sys.exit\<close> is.
\<close>

type_synonym command = "string list"

record env =
  path_exists :: bool
  stdout_of :: "command list \<Rightarrow> command \<Rightarrow> string"

definition xsetwacom :: string where
  "xsetwacom = ''/usr/bin/xsetwacom''"

definition subprocess_run :: "env \<Rightarrow> command list \<Rightarrow> command \<Rightarrow> string \<times> command list" where
  "subprocess_run env cmds command = (stdout_of env cmds command, cmds @ [command])"

text \<open>
  \<^verbatim>\<open>def get_devices()\<close>: the dictionary from device id to name and type is an association
  list in insertion order; a repeated id overwrites the entry in place.  The result
  \<open>None\<close> is Python's \<^verbatim>\<open>None\<close>.
\<close>

record device_entry =
  name :: string
  type :: string

fun parse_devices ::
  "string list \<Rightarrow> (string \<times> device_entry) list \<Rightarrow> exn + (string \<times> device_entry) list"
where
  "parse_devices [] devices = Inr devices"
| "parse_devices (device # output) devices =
     (let parts = str_split CHR 0x09 device
      in if length parts < 3 then Inl IndexError
         else
           parse_devices output
             (AList.update (str_strip (drop 4 (parts ! 1)))
                \<lparr>name = str_strip (parts ! 0), type = str_strip (drop 6 (parts ! 2))\<rparr>
                devices))"

definition get_devices ::
  "env \<Rightarrow> command list \<Rightarrow> (exn + (string \<times> device_entry) list option) \<times> command list"
where
  "get_devices env cmds =
     (case subprocess_run env cmds [xsetwacom, ''--list'', ''devices''] of
        (out, cmds') \<Rightarrow>
          (let output = butlast (str_split CHR 0x0A out)
           in if length output < 1 then (Inr None, cmds')
              else
                (case parse_devices output [] of
                   Inl e \<Rightarrow> (Inl e, cmds')
                 | Inr devices \<Rightarrow> (Inr (Some devices), cmds'))))"

text \<open>\<^verbatim>\<open>def device_has_area(device)\<close>; the bare \<^verbatim>\<open>except\<close> turns a failing \<^verbatim>\<open>int\<close> into False.\<close>

definition device_has_area :: "env \<Rightarrow> command list \<Rightarrow> string \<Rightarrow> bool \<times> command list" where
  "device_has_area env cmds device =
     (case subprocess_run env cmds [xsetwacom, ''--get'', device, ''Area''] of
        (out, cmds') \<Rightarrow>
          if str_endswith out (''does not exist on device.'' @ [CHR 0x0A]) then (False, cmds')
          else
            (let area = str_split CHR 0x20 (butlast out)
             in (list_all (\<lambda>coord. int_builtin coord \<noteq> None) area, cmds')))"

text \<open>One of the two loops of \<^verbatim>\<open>find_first_tablet\<close>, for the device type \<open>ty\<close>.\<close>

fun first_with_area ::
  "env \<Rightarrow> string \<Rightarrow> (string \<times> device_entry) list \<Rightarrow> command list \<Rightarrow> string option \<times> command list"
where
  "first_with_area env ty [] cmds = (None, cmds)"
| "first_with_area env ty ((device, entry) # devices) cmds =
     (if type entry = ty then
        (case device_has_area env cmds device of
           (True, cmds') \<Rightarrow> (Some device, cmds')
         | (False, cmds') \<Rightarrow> first_with_area env ty devices cmds')
      else first_with_area env ty devices cmds)"

text \<open>
  \<^verbatim>\<open>def find_first_tablet()\<close>; iterating over the \<^verbatim>\<open>None\<close> that \<^verbatim>\<open>get_devices\<close> returns for an
  empty listing raises TypeError.
\<close>

definition find_first_tablet :: "env \<Rightarrow> command list \<Rightarrow> (exn + string option) \<times> command list" where
  "find_first_tablet env cmds =
     (case get_devices env cmds of
        (Inl e, cmds1) \<Rightarrow> (Inl e, cmds1)
      | (Inr None, cmds1) \<Rightarrow> (Inl TypeError, cmds1)
      | (Inr (Some devices), cmds1) \<Rightarrow>
          (case first_with_area env ''STYLUS'' devices cmds1 of
             (Some device, cmds2) \<Rightarrow> (Inr (Some device), cmds2)
           | (None, cmds2) \<Rightarrow>
               (case first_with_area env ''PAD'' devices cmds2 of
                  (r, cmds3) \<Rightarrow> (Inr r, cmds3))))"

text \<open>
  \<^verbatim>\<open>def get_tablet_max_area(device, dry_run=False)\<close>: unless it is a dry run, the area of
  the device is first set to \<^verbatim>\<open>-1 -1 -1 -1\<close>, then read.
\<close>

definition get_tablet_max_area ::
  "env \<Rightarrow> command list \<Rightarrow> string \<Rightarrow> bool \<Rightarrow> (exn + string \<times> string) \<times> command list"
where
  "get_tablet_max_area env cmds device dry_run =
     (let cmds1 =
            (if \<not> dry_run then
               snd (subprocess_run env cmds [xsetwacom, ''--set'', device, ''Area'', ''-1 -1 -1 -1''])
             else cmds)
      in case subprocess_run env cmds1 [xsetwacom, ''--get'', device, ''Area''] of
           (out, cmds2) \<Rightarrow>
             (case str_split_ws (butlast out) of
                [x1, y1, x2, y2] \<Rightarrow> (Inr (x2, y2), cmds2)
              | _ \<Rightarrow> (Inl ValueError, cmds2)))"

text \<open>\<^verbatim>\<open>def set_area(device, x1, y1, x2, y2, verbose=False, dry_run=False)\<close>\<close>

definition set_area ::
  "env \<Rightarrow> command list \<Rightarrow> string \<Rightarrow> int \<Rightarrow> int \<Rightarrow> int \<Rightarrow> int \<Rightarrow> bool \<Rightarrow> bool \<Rightarrow> command list"
where
  "set_area env cmds device x1 y1 x2 y2 verbose dry_run =
     (let command =
            [xsetwacom, ''--set'', device, ''Area'',
             str_int x1 @ '' '' @ str_int y1 @ '' '' @ str_int x2 @ '' '' @ str_int y2]
      in if \<not> dry_run then snd (subprocess_run env cmds command) else cmds)"


section \<open>The program\<close>

text \<open>
  The parsed command line.  \<^verbatim>\<open>argparse\<close> has already converted \<^verbatim>\<open>--width\<close>, \<^verbatim>\<open>--height\<close>
  and \<^verbatim>\<open>--device-resolution\<close>; \<^verbatim>\<open>--unit\<close> and \<^verbatim>\<open>--align\<close> are the strings given, which
  \<^verbatim>\<open>argparse\<close> compares with their \<^verbatim>\<open>choices\<close>.
\<close>

record args =
  device :: "string option"
  aspect :: string
  device_area :: "string option"
  device_resolution :: int
  width :: "real option"
  height :: "real option"
  unit :: string
  full :: bool
  align :: string
  v :: bool
  dry_run :: bool

definition unit_choices :: "string list" where
  "unit_choices = [''in'', ''cm'', ''mm'', ''lines'']"

definition align_choices :: "string list" where
  "align_choices =
     [''topleft'', ''top'', ''topright'', ''left'', ''center'', ''right'',
      ''bottomleft'', ''bottom'', ''bottomright'']"

text \<open>
  How a run ends: \<^verbatim>\<open>sys.exit\<close> with a message (status 1; status 2 for the usage error of
  \<^verbatim>\<open>argparse\<close>), an exception that nothing catches (status 1), or the end of \<^verbatim>\<open>main\<close>
  (status 0).
\<close>

datatype outcome = Exit exit_message | Raise exn | Return

definition exit_status :: "outcome \<Rightarrow> nat" where
  "exit_status out =
     (case out of Exit Usage_error \<Rightarrow> 2 | Exit _ \<Rightarrow> 1 | Raise _ \<Rightarrow> 1 | Return \<Rightarrow> 0)"

text \<open>
  Lines 140 to 150: the loop over the group \<^verbatim>\<open>["width", "height", "full"]\<close>.  An argument
  is found when it is a float or equal to True.
\<close>

fun check_group :: "(string \<times> bool) list \<Rightarrow> string list \<Rightarrow> exit_message + string list" where
  "check_group [] found_args = Inr found_args"
| "check_group ((arg, present) # rest) found_args =
     (let found_args' = (if present then found_args @ [arg] else found_args)
      in if length found_args' > 1 then Inl (Not_together found_args')
         else check_group rest found_args')"

definition verify_arguments :: "args \<Rightarrow> exit_message option" where
  "verify_arguments a =
     (case check_group
             [(''width'', width a \<noteq> None), (''height'', height a \<noteq> None), (''full'', full a)] []
      of
        Inl m \<Rightarrow> Some m
      | Inr found_args \<Rightarrow>
          if length found_args = 0 then Some (Exactly_one [''width'', ''height'', ''full''])
          else None)"

text \<open>Lines 152 to 158: the device given, or the first tablet found, must have an area.\<close>

definition select_device ::
  "env \<Rightarrow> string option \<Rightarrow> command list \<Rightarrow> (outcome + string) \<times> command list"
where
  "select_device env dev cmds =
     (case (case dev of
              None \<Rightarrow> find_first_tablet env cmds
            | Some d \<Rightarrow> (Inr (Some d), cmds))
      of
        (Inl e, cmds1) \<Rightarrow> (Inl (Raise e), cmds1)
      | (Inr None, cmds1) \<Rightarrow> (Inl (Exit No_tablet), cmds1)
      | (Inr (Some d), cmds1) \<Rightarrow>
          (case device_has_area env cmds1 d of
             (True, cmds2) \<Rightarrow> (Inr d, cmds2)
           | (False, cmds2) \<Rightarrow> (Inl (Exit (Invalid_device d)), cmds2)))"

text \<open>Lines 160 to 166: the aspect must split at \<^verbatim>\<open>:\<close> into two strings that \<^verbatim>\<open>int\<close> accepts.\<close>

definition valid_aspect :: "string \<Rightarrow> bool" where
  "valid_aspect s =
     (case str_split CHR '':'' s of
        [w, h] \<Rightarrow> int_builtin w \<noteq> None \<and> int_builtin h \<noteq> None
      | _ \<Rightarrow> False)"

text \<open>
  Lines 168 to 176: a device area given on the command line must split at \<^verbatim>\<open>x\<close> into
  strings that \<^verbatim>\<open>int\<close> accepts, however many; otherwise the area is read from the device.
\<close>

definition valid_device_area :: "string \<Rightarrow> bool" where
  "valid_device_area s = list_all (\<lambda>part. int_builtin part \<noteq> None) (str_split CHR ''x'' s)"

definition obtain_device_area ::
  "env \<Rightarrow> string \<Rightarrow> string option \<Rightarrow> bool \<Rightarrow> command list \<Rightarrow> (outcome + string) \<times> command list"
where
  "obtain_device_area env d area dry cmds =
     (case area of
        Some s \<Rightarrow>
          if valid_device_area s then (Inr s, cmds)
          else (Inl (Exit (Invalid_device_area s)), cmds)
      | None \<Rightarrow>
          (case get_tablet_max_area env cmds d dry of
             (Inl e, cmds') \<Rightarrow> (Inl (Raise e), cmds')
           | (Inr (x2, y2), cmds') \<Rightarrow> (Inr (x2 @ ''x'' @ y2), cmds')))"

text \<open>
  Lines 180 to 196: the requested width or height in lines.  The last \<^verbatim>\<open>elif\<close> has no
  \<^verbatim>\<open>else\<close>: with a unit outside the choices, \<^verbatim>\<open>divisor\<close> would be unbound.
\<close>

definition to_lines :: "args \<Rightarrow> exn + (real option \<times> real option)" where
  "to_lines a =
     (if \<not> full a then
        (if unit a \<noteq> ''lines'' then
           (case (if unit a = ''in'' then Some 1
                  else if unit a = ''cm'' then Some (254 / 100)
                  else if unit a = ''mm'' then Some (254 / 10)
                  else None)
            of
              None \<Rightarrow> Inl UnboundLocalError
            | Some divisor \<Rightarrow>
                (case width a of
                   Some w \<Rightarrow> Inr (Some (w / divisor * real_of_int (device_resolution a)), height a)
                 | None \<Rightarrow>
                     (case height a of
                        None \<Rightarrow> Inl TypeError
                      | Some h \<Rightarrow>
                          Inr (None, Some (h / divisor * real_of_int (device_resolution a))))))
         else Inr (width a, height a))
      else Inr (width a, height a))"

text \<open>Lines 180 to 252: from the arguments and the device area to the rectangle.\<close>

definition compute_area :: "args \<Rightarrow> string \<Rightarrow> outcome + (int \<times> int \<times> int \<times> int)" where
  "compute_area a area =
     (case to_lines a of
        Inl e \<Rightarrow> Inl (Raise e)
      | Inr (w0, h0) \<Rightarrow>
     (case convert_aspect (aspect a) of
        Inl e \<Rightarrow> Inl (Raise e)
      | Inr (screen_width, screen_height) \<Rightarrow>
     (case convert_size area of
        Inl e \<Rightarrow> Inl (Raise e)
      | Inr (tablet_width, tablet_height) \<Rightarrow>
     (case calc_size (full a) w0 h0 screen_width screen_height tablet_width tablet_height of
        Inl e \<Rightarrow> Inl (Raise e)
      | Inr (w, h) \<Rightarrow>
     (case calc_offset (align a) tablet_width tablet_height w h of
        (offset_x, offset_y) \<Rightarrow>
     (case check_bounds tablet_width tablet_height w h offset_x offset_y of
        Inl m \<Rightarrow> Inl (Exit m)
      | Inr r \<Rightarrow> Inr r))))))"

text \<open>Lines 180 to 255, with the device \<open>d\<close> and the device area known.\<close>

definition apply_area :: "env \<Rightarrow> args \<Rightarrow> string \<Rightarrow> string \<Rightarrow> command list \<Rightarrow> outcome \<times> command list" where
  "apply_area env a d area cmds =
     (case compute_area a area of
        Inl out \<Rightarrow> (out, cmds)
      | Inr (x1, y1, x2, y2) \<Rightarrow> (Return, set_area env cmds d x1 y1 x2 y2 (v a) (dry_run a)))"

text \<open>\<^verbatim>\<open>def main()\<close>: the outcome of the run and the commands it ran.\<close>

definition main :: "env \<Rightarrow> args \<Rightarrow> outcome \<times> command list" where
  "main env a =
     (if unit a \<notin> set unit_choices \<or> align a \<notin> set align_choices then (Exit Usage_error, [])
      else if \<not> path_exists env then (Exit Tool_not_found, [])
      else
        (case verify_arguments a of
           Some m \<Rightarrow> (Exit m, [])
         | None \<Rightarrow>
             (case select_device env (device a) [] of
                (Inl out, cmds1) \<Rightarrow> (out, cmds1)
              | (Inr d, cmds1) \<Rightarrow>
                  if \<not> valid_aspect (aspect a) then (Exit (Invalid_aspect (aspect a)), cmds1)
                  else
                    (case obtain_device_area env d (device_area a) (dry_run a) cmds1 of
                       (Inl out, cmds2) \<Rightarrow> (out, cmds2)
                     | (Inr area, cmds2) \<Rightarrow> apply_area env a d area cmds2))))"


section \<open>The alignment table of the specification\<close>

text \<open>
  The table of section 4.3 of the specification, written from its words and not from the
  code: each alignment names a rule for the horizontal and one for the vertical offset,
  where the centre offset is \<open>(tablet - size) / 2\<close> and the full offset is
  \<open>tablet - size\<close>.
\<close>

datatype offset_rule = Zero_offset | Center_offset | Full_offset

definition spec_offset :: "offset_rule \<Rightarrow> real \<Rightarrow> real \<Rightarrow> real" where
  "spec_offset rule tablet extent =
     (case rule of
        Zero_offset \<Rightarrow> 0
      | Center_offset \<Rightarrow> (tablet - extent) / 2
      | Full_offset \<Rightarrow> tablet - extent)"

definition spec_alignment :: "string \<Rightarrow> (offset_rule \<times> offset_rule) option" where
  "spec_alignment =
     map_of
       [(''topleft'', (Zero_offset, Zero_offset)),
        (''top'', (Center_offset, Zero_offset)),
        (''topright'', (Full_offset, Zero_offset)),
        (''left'', (Zero_offset, Center_offset)),
        (''center'', (Center_offset, Center_offset)),
        (''right'', (Full_offset, Center_offset)),
        (''bottomleft'', (Zero_offset, Full_offset)),
        (''bottom'', (Center_offset, Full_offset)),
        (''bottomright'', (Full_offset, Full_offset))]"


section \<open>Reading the command list\<close>

text \<open>
  A command writes to the device when its option is \<^verbatim>\<open>--set\<close>.  The program builds two
  such commands: the reset of \<^verbatim>\<open>get_tablet_max_area\<close> and the command of \<^verbatim>\<open>set_area\<close>.
\<close>

definition is_write :: "command \<Rightarrow> bool" where
  "is_write command = (case command of _ # opt # _ \<Rightarrow> opt = ''--set'' | _ \<Rightarrow> False)"

definition writes :: "command list \<Rightarrow> command list" where
  "writes cmds = filter is_write cmds"

definition reset_command :: "string \<Rightarrow> command" where
  "reset_command d = [xsetwacom, ''--set'', d, ''Area'', ''-1 -1 -1 -1'']"

definition area_command :: "string \<Rightarrow> int \<times> int \<times> int \<times> int \<Rightarrow> command" where
  "area_command d r =
     (case r of
        (x1, y1, x2, y2) \<Rightarrow>
          [xsetwacom, ''--set'', d, ''Area'',
           str_int x1 @ '' '' @ str_int y1 @ '' '' @ str_int x2 @ '' '' @ str_int y2])"


section \<open>A tablet and a command line to run the program on\<close>

text \<open>
  The tool is installed and answers every command with the area line of a tablet of 10000
  by 6000 lines.  The command line names the device and leaves every other option at
  the default of \<^verbatim>\<open>argparse\<close>.
\<close>

definition tablet_env :: env where
  "tablet_env =
     \<lparr>path_exists = True, stdout_of = (\<lambda>cmds command. ''0 0 10000 6000'' @ [CHR 0x0A])\<rparr>"

definition default_args :: args where
  "default_args =
     \<lparr>device = Some ''10'', aspect = ''16:9'', device_area = None, device_resolution = 2540,
      width = None, height = None, unit = ''mm'', full = False, align = ''center'',
      v = False, dry_run = False\<rparr>"


section \<open>The quantizer\<close>

lemma round2_floor:
  "round2 x =
     (if frac x < 2 / 5 then \<lfloor>x\<rfloor>
      else if frac x = 2 / 5 then (if even \<lfloor>x\<rfloor> then \<lfloor>x\<rfloor> else \<lfloor>x\<rfloor> + 1)
      else \<lfloor>x\<rfloor> + 1)"
proof -
  define n where "n = \<lfloor>x\<rfloor>"
  define f where "f = x - of_int n"
  have f: "0 \<le> f" "f < 1" and x: "x = of_int n + f"
    unfolding f_def n_def by linarith+
  have fr: "frac x = f" by (simp add: frac_def f_def n_def)
  show ?thesis
  proof (cases "f < 9 / 10")
    case True
    have fl: "\<lfloor>x + 1 / 10\<rfloor> = n"
      using f True x by (simp add: floor_eq_iff)
    have d: "x + 1 / 10 - of_int n = f + 1 / 10" using x by simp
    show ?thesis
      unfolding round2_def round_builtin_def Let_def fl d fr n_def[symmetric]
      using True by auto
  next
    case False
    have fl: "\<lfloor>x + 1 / 10\<rfloor> = n + 1"
      using f False x by (simp add: floor_eq_iff)
    have d: "x + 1 / 10 - of_int (n + 1) = f - 9 / 10" using x by simp
    show ?thesis
      unfolding round2_def round_builtin_def Let_def fl d fr n_def[symmetric]
      using False f by auto
  qed
qed


lemma round2_of_int: "round2 (of_int n) = n"
  by (simp add: round2_floor)

lemma round2_lower: "\<lfloor>x\<rfloor> \<le> round2 x"
  by (simp add: round2_floor)

lemma round2_upper: "round2 x \<le> \<lfloor>x\<rfloor> + 1"
  by (simp add: round2_floor)

lemma round2_mono: "x \<le> y \<Longrightarrow> round2 x \<le> round2 y"
proof -
  assume xy: "x \<le> y"
  have fl: "\<lfloor>x\<rfloor> \<le> \<lfloor>y\<rfloor>" using xy by (rule floor_mono)
  show ?thesis
  proof (cases "\<lfloor>x\<rfloor> = \<lfloor>y\<rfloor>")
    case True
    then have "frac x \<le> frac y" using xy by (simp add: frac_def)
    then show ?thesis using True by (auto simp: round2_floor)
  next
    case False
    then have "\<lfloor>x\<rfloor> + 1 \<le> \<lfloor>y\<rfloor>" using fl by simp
    then show ?thesis using round2_upper[of x] round2_lower[of y] by linarith
  qed
qed

lemma round2_int_half: "round2 (of_int n + 1 / 2) = n + 1"
proof -
  have "\<lfloor>of_int n + 1 / 2 :: real\<rfloor> = n" by (simp add: floor_eq_iff)
  moreover have "frac (of_int n + 1 / 2 :: real) = 1 / 2" by (simp add: frac_def floor_eq_iff)
  ultimately show ?thesis by (simp add: round2_floor)
qed

lemma round2_half: "x \<in> \<int> \<Longrightarrow> x + 1 / 2 \<le> y \<Longrightarrow> round2 x < round2 y"
proof -
  assume "x \<in> \<int>" and xy: "x + 1 / 2 \<le> y"
  then obtain n where n: "x = of_int n" by (auto elim: Ints_cases)
  have "round2 (of_int n + 1 / 2) \<le> round2 y"
    using xy n by (intro round2_mono) simp
  then show ?thesis using n by (simp add: round2_int_half round2_of_int)
qed




section \<open>The size in full-area mode\<close>

text \<open>
  Claim C1: for a tablet area of positive width and height and an aspect ratio of positive
  components, the size resolved in full-area mode has the aspect ratio of the screen and
  one of its dimensions is the tablet's: the width when the screen aspect is wider than
  the tablet's, the height when it is narrower, both when the aspects are equal.  With
  exact arithmetic the ratio is preserved exactly.
\<close>

theorem full_area_preserves_aspect:
  assumes "0 < tw" and "0 < th" and "0 < sw" and "0 < sh"
  shows "\<exists>w h. calc_size True w0 h0 sw sh tw th = Inr (w, h) \<and>
           w / h = sw / sh \<and>
           (w = tw \<or> h = th) \<and>
           (tw / th < sw / sh \<longrightarrow> w = tw) \<and>
           (sw / sh < tw / th \<longrightarrow> h = th) \<and>
           (sw / sh = tw / th \<longrightarrow> w = tw \<and> h = th)"
  using assms by (auto simp: calc_size_def float_div_def)

theorem full_area_preserves_aspect_witness:
  "(0::real) < 10000 \<and> (0::real) < 6000 \<and> (0::real) < 16 \<and> (0::real) < 9 \<and>
   (\<exists>w h. calc_size True None None 16 9 10000 6000 = Inr (w, h) \<and>
      w / h = 16 / 9 \<and> (w = 10000 \<or> h = 6000) \<and> w = 10000)"
  using full_area_preserves_aspect [of 10000 6000 16 9 None None] by auto


section \<open>The origin\<close>

text \<open>
  Claim C2: for each of the nine alignment values the offsets computed by the code are
  those of the specification's table, for every tablet area and size; a value outside the
  nine is not accepted, the run ends with the usage error before anything else happens.
\<close>

theorem alignment_table:
  "(case spec_alignment al of
      Some (rule_x, rule_y) \<Rightarrow>
        al \<in> set align_choices \<and>
        calc_offset al tw th w h = (spec_offset rule_x tw w, spec_offset rule_y th h)
    | None \<Rightarrow>
        al \<notin> set align_choices \<and> main env (a\<lparr>align := al\<rparr>) = (Exit Usage_error, []))"
  by (simp add: spec_alignment_def align_choices_def calc_offset_def spec_offset_def
      main_def Let_def diff_divide_distrib)

theorem alignment_table_witness:
  "''right'' \<in> set align_choices \<and>
   calc_offset ''right'' 10000 6000 5000 3000 = (5000, 1500) \<and>
   ''middle'' \<notin> set align_choices \<and>
   main tablet_env (default_args\<lparr>align := ''middle''\<rparr>) = (Exit Usage_error, [])"
  using alignment_table [where al = "''right''" and tw = 10000 and th = 6000 and w = 5000 and h = 3000]
    alignment_table [where al = "''middle''" and env = tablet_env and a = default_args]
  by (simp add: spec_alignment_def spec_offset_def)

text \<open>
  Claim C7: for every alignment, if the size fits the tablet (width at most the tablet
  width, height at most the tablet height), the rectangle before quantization ends inside
  the tablet: offset plus extent is at most the tablet's extent, on both axes.
\<close>

theorem offsets_within_tablet:
  assumes "w \<le> tw" and "h \<le> th"
  shows "fst (calc_offset al tw th w h) + w \<le> tw \<and> snd (calc_offset al tw th w h) + h \<le> th"
  using assms by (simp add: calc_offset_def Let_def)

theorem offsets_within_tablet_witness:
  "(5000::real) \<le> 10000 \<and> (5625 / 2 :: real) \<le> 6000 \<and>
   fst (calc_offset ''right'' 10000 6000 5000 (5625 / 2)) + 5000 \<le> 10000 \<and>
   snd (calc_offset ''right'' 10000 6000 5000 (5625 / 2)) + 5625 / 2 \<le> 6000"
  using offsets_within_tablet [of 5000 10000 "5625 / 2" 6000 "''right''"] by simp


section \<open>Evaluating the conversions\<close>

lemmas number_defs =
  int_builtin_def float_builtin_def strip_c_def isspace_c_def signed_digits_def
  unsigned_float_def mantissa_def isdigit_def digit_value_def digits_value_def

lemma convert_aspect_16_9: "convert_aspect ''16:9'' = Inr (16, 9)"
  by (simp add: convert_aspect_def number_defs)

lemma valid_aspect_16_9: "valid_aspect ''16:9''"
  by (simp add: valid_aspect_def number_defs)

lemma convert_size_values:
  "convert_size ''10000x6000'' = Inr (10000, 6000)"
  "convert_size ''10000x0'' = Inr (10000, 0)"
  "convert_size ''0x6000'' = Inr (0, 6000)"
  by (simp_all add: convert_size_def number_defs)

lemma valid_device_area_values:
  "valid_device_area ''10000x6000''" "valid_device_area ''10000x0''"
  "valid_device_area ''8000''" "valid_device_area ''1x2x3''"
  by (simp_all add: valid_device_area_def number_defs)

lemma round2_values:
  "round2 0 = 0" "round2 (375 / 2) = 188" "round2 10000 = 10000" "round2 (11625 / 2) = 5813"
  "round2 6000 = 6000" "round2 15000 = 15000" "round2 (- 10000) = - 10000"
  "round2 (- 5250) = - 5250"
  by (simp_all add: round2_def round_builtin_def Let_def)

lemma str_int_values:
  "str_int 0 = ''0''" "str_int 188 = ''188''" "str_int 10000 = ''10000''"
  "str_int 5813 = ''5813''" "str_int 6000 = ''6000''" "str_int (- 10000) = ''-10000''"
  "str_int (- 5250) = ''-5250''"
  by (simp_all add: str_int_def)


section \<open>The commands of a run\<close>

lemma writes_append [simp]: "writes (xs @ ys) = writes xs @ writes ys"
  by (simp add: writes_def)

lemma writes_Nil [simp]: "writes [] = []"
  by (simp add: writes_def)

lemma writes_Cons [simp]:
  "writes (c # cs) = (if is_write c then c # writes cs else writes cs)"
  by (simp add: writes_def)

lemma is_write_read [simp]:
  "\<not> is_write [xsetwacom, ''--get'', d, ''Area'']"
  "\<not> is_write [xsetwacom, ''--list'', ''devices'']"
  by (simp_all add: is_write_def)

lemma is_write_reset [simp]: "is_write (reset_command d)"
  by (simp add: is_write_def reset_command_def)

lemma is_write_area [simp]: "is_write (area_command d r)"
  by (cases r) (simp add: is_write_def area_command_def)

lemma device_has_area_cmds:
  "snd (device_has_area env cmds d) = cmds @ [[xsetwacom, ''--get'', d, ''Area'']]"
  by (simp add: device_has_area_def subprocess_run_def Let_def)

lemma device_has_area_writes: "writes (snd (device_has_area env cmds d)) = writes cmds"
  by (simp add: device_has_area_cmds)

lemma get_devices_writes: "writes (snd (get_devices env cmds)) = writes cmds"
  by (simp add: get_devices_def subprocess_run_def Let_def split: sum.splits)

lemma first_with_area_writes: "writes (snd (first_with_area env ty devices cmds)) = writes cmds"
proof (induction devices arbitrary: cmds)
  case Nil
  show ?case by simp
next
  case (Cons p devices)
  obtain device entry where p: "p = (device, entry)" by (cases p)
  obtain b cmds' where h: "device_has_area env cmds device = (b, cmds')"
    by (cases "device_has_area env cmds device")
  have w: "writes cmds' = writes cmds"
    using device_has_area_writes [of env cmds device] h by simp
  show ?case
    using Cons.IH [of cmds'] Cons.IH [of cmds] w
    by (cases b) (simp_all add: p h)
qed

lemma find_first_tablet_writes: "writes (snd (find_first_tablet env cmds)) = writes cmds"
proof -
  obtain r cmds1 where g: "get_devices env cmds = (r, cmds1)"
    by (cases "get_devices env cmds")
  have w1: "writes cmds1 = writes cmds"
    using get_devices_writes [of env cmds] g by simp
  show ?thesis
  proof (cases r)
    case (Inl e)
    then show ?thesis by (simp add: find_first_tablet_def g w1)
  next
    case (Inr devs)
    show ?thesis
    proof (cases devs)
      case None
      then show ?thesis by (simp add: find_first_tablet_def g Inr w1)
    next
      case (Some devices)
      obtain r2 cmds2 where s: "first_with_area env ''STYLUS'' devices cmds1 = (r2, cmds2)"
        by (cases "first_with_area env ''STYLUS'' devices cmds1")
      obtain r3 cmds3 where p: "first_with_area env ''PAD'' devices cmds2 = (r3, cmds3)"
        by (cases "first_with_area env ''PAD'' devices cmds2")
      have w2: "writes cmds2 = writes cmds1"
        using first_with_area_writes [of env "''STYLUS''" devices cmds1] s by simp
      have w3: "writes cmds3 = writes cmds2"
        using first_with_area_writes [of env "''PAD''" devices cmds2] p by simp
      show ?thesis
        by (cases r2) (simp_all add: find_first_tablet_def g Inr Some s p w1 w2 w3)
    qed
  qed
qed

lemma select_device_writes: "writes (snd (select_device env dev cmds)) = writes cmds"
proof -
  obtain r cmds1 where f:
    "(case dev of None \<Rightarrow> find_first_tablet env cmds | Some d \<Rightarrow> (Inr (Some d), cmds)) = (r, cmds1)"
    by (cases "(case dev of None \<Rightarrow> find_first_tablet env cmds | Some d \<Rightarrow> (Inr (Some d), cmds))")
  have w1: "writes cmds1 = writes cmds"
    using f find_first_tablet_writes [of env cmds] by (cases dev) auto
  show ?thesis
  proof (cases r)
    case (Inl e)
    then show ?thesis by (simp add: select_device_def f w1)
  next
    case (Inr found)
    show ?thesis
    proof (cases found)
      case None
      then show ?thesis by (simp add: select_device_def f Inr w1)
    next
      case (Some d)
      obtain b cmds2 where h: "device_has_area env cmds1 d = (b, cmds2)"
        by (cases "device_has_area env cmds1 d")
      have "writes cmds2 = writes cmds1"
        using device_has_area_writes [of env cmds1 d] h by simp
      then show ?thesis
        by (cases b) (simp_all add: select_device_def f Inr Some h w1)
    qed
  qed
qed

lemma select_device_fails:
  "select_device env dev cmds = (Inl out, cmds') \<Longrightarrow> out \<noteq> Return"
  by (auto simp: select_device_def split: prod.splits sum.splits option.splits bool.splits)

lemma get_tablet_max_area_cmds:
  "snd (get_tablet_max_area env cmds d dry) =
     cmds @ (if dry then [] else [reset_command d]) @ [[xsetwacom, ''--get'', d, ''Area'']]"
  by (simp add: get_tablet_max_area_def subprocess_run_def reset_command_def Let_def
      split: list.splits)

lemma obtain_device_area_writes:
  "writes (snd (obtain_device_area env d area dry cmds)) =
     writes cmds @ (if area = None \<and> \<not> dry then [reset_command d] else [])"
proof (cases area)
  case None
  obtain r cmds' where g: "get_tablet_max_area env cmds d dry = (r, cmds')"
    by (cases "get_tablet_max_area env cmds d dry")
  have "cmds' = cmds @ (if dry then [] else [reset_command d]) @ [[xsetwacom, ''--get'', d, ''Area'']]"
    using get_tablet_max_area_cmds [of env cmds d dry] g by simp
  then show ?thesis
    by (cases r) (auto simp: obtain_device_area_def None g split: prod.splits)
next
  case (Some s)
  then show ?thesis by (simp add: obtain_device_area_def)
qed

lemma obtain_device_area_fails:
  "obtain_device_area env d area dry cmds = (Inl out, cmds') \<Longrightarrow> out \<noteq> Return"
  by (auto simp: obtain_device_area_def split: option.splits if_splits prod.splits sum.splits)

lemma obtain_device_area_given:
  "obtain_device_area env d (Some s) dry cmds = (Inr area, cmds') \<Longrightarrow> area = s"
  by (auto simp: obtain_device_area_def split: if_splits)

lemma set_area_cmds:
  "set_area env cmds d x1 y1 x2 y2 verbose dry =
     (if dry then cmds else cmds @ [area_command d (x1, y1, x2, y2)])"
  by (simp add: set_area_def subprocess_run_def area_command_def Let_def)

lemma apply_area_cases:
  "(\<exists>out. out \<noteq> Return \<and> compute_area a area = Inl out \<and>
        apply_area env a d area cmds = (out, cmds)) \<or>
   (\<exists>r. compute_area a area = Inr r \<and>
        apply_area env a d area cmds =
          (Return, if dry_run a then cmds else cmds @ [area_command d r]))"
proof (cases "compute_area a area")
  case (Inl out)
  then have "out \<noteq> Return"
    by (auto simp: compute_area_def split: sum.splits prod.splits)
  then show ?thesis using Inl by (simp add: apply_area_def)
next
  case (Inr r)
  then show ?thesis by (cases r) (simp add: apply_area_def set_area_cmds)
qed



section \<open>The stages of \<^verbatim>\<open>main\<close>\<close>

lemma main_early:
  "unit a \<notin> set unit_choices \<or> align a \<notin> set align_choices \<or> \<not> path_exists env \<or>
     verify_arguments a \<noteq> None \<Longrightarrow> \<exists>m. main env a = (Exit m, [])"
  by (auto simp: main_def)

lemma main_late:
  "unit a \<in> set unit_choices \<Longrightarrow> align a \<in> set align_choices \<Longrightarrow> path_exists env \<Longrightarrow>
   verify_arguments a = None \<Longrightarrow>
   main env a =
     (case select_device env (device a) [] of
        (Inl out, cmds1) \<Rightarrow> (out, cmds1)
      | (Inr d, cmds1) \<Rightarrow>
          if \<not> valid_aspect (aspect a) then (Exit (Invalid_aspect (aspect a)), cmds1)
          else
            (case obtain_device_area env d (device_area a) (dry_run a) cmds1 of
               (Inl out, cmds2) \<Rightarrow> (out, cmds2)
             | (Inr area, cmds2) \<Rightarrow> apply_area env a d area cmds2))"
  by (simp add: main_def)

lemma main_stages:
  obtains
    (early) m where "main env a = (Exit m, [])"
  | (stopped) out cmds1 where "out \<noteq> Return" "writes cmds1 = []" "main env a = (out, cmds1)"
  | (no_area) d cmds1 out cmds2 where
      "select_device env (device a) [] = (Inr d, cmds1)"
      "writes cmds1 = []" "out \<noteq> Return"
      "obtain_device_area env d (device_area a) (dry_run a) cmds1 = (Inl out, cmds2)"
      "main env a = (out, cmds2)"
  | (area) d cmds1 area cmds2 where
      "select_device env (device a) [] = (Inr d, cmds1)"
      "writes cmds1 = []"
      "obtain_device_area env d (device_area a) (dry_run a) cmds1 = (Inr area, cmds2)"
      "main env a = apply_area env a d area cmds2"
proof (cases "unit a \<in> set unit_choices \<and> align a \<in> set align_choices \<and> path_exists env \<and>
    verify_arguments a = None")
  case False
  then obtain m where "main env a = (Exit m, [])" using main_early [of a env] by blast
  then show ?thesis by (rule early)
next
  case True
  note late = main_late [of a env]
  obtain r cmds1 where s: "select_device env (device a) [] = (r, cmds1)"
    by (cases "select_device env (device a) []")
  have w1: "writes cmds1 = []"
    using select_device_writes [of env "device a" "[]"] s by simp
  show ?thesis
  proof (cases r)
    case (Inl out)
    then have "out \<noteq> Return" using s select_device_fails by blast
    moreover have "main env a = (out, cmds1)" using True late by (simp add: s Inl)
    ultimately show ?thesis using w1 by (intro stopped)
  next
    case (Inr d)
    show ?thesis
    proof (cases "valid_aspect (aspect a)")
      case False
      then have "main env a = (Exit (Invalid_aspect (aspect a)), cmds1)"
        using True late by (simp add: s Inr)
      then show ?thesis using w1 by (intro stopped) simp_all
    next
      case valid: True
      obtain r2 cmds2 where
        ob: "obtain_device_area env d (device_area a) (dry_run a) cmds1 = (r2, cmds2)"
        by (cases "obtain_device_area env d (device_area a) (dry_run a) cmds1")
      show ?thesis
      proof (cases r2)
        case (Inl out)
        then have "out \<noteq> Return" using ob obtain_device_area_fails by blast
        moreover have "main env a = (out, cmds2)"
          using True late valid by (simp add: s Inr ob Inl)
        ultimately show ?thesis using w1 ob Inl s Inr by (intro no_area) simp_all
      next
        case ar: (Inr area)
        have "main env a = apply_area env a d area cmds2"
          using True late valid by (simp add: s Inr ob ar)
        then show ?thesis using w1 ob ar s Inr by (intro area) simp_all
      qed
    qed
  qed
qed


section \<open>Runs on the tablet\<close>

lemma tablet_has_area:
  "device_has_area tablet_env cmds d = (True, cmds @ [[xsetwacom, ''--get'', d, ''Area'']])"
  by (simp add: device_has_area_def subprocess_run_def tablet_env_def str_endswith_def
      number_defs)

lemma tablet_select:
  "select_device tablet_env (Some d) cmds = (Inr d, cmds @ [[xsetwacom, ''--get'', d, ''Area'']])"
  by (simp add: select_device_def tablet_has_area)

lemma tablet_max_area:
  "get_tablet_max_area tablet_env cmds d False =
     (Inr (''10000'', ''6000''), cmds @ [reset_command d, [xsetwacom, ''--get'', d, ''Area'']])"
  by (simp add: get_tablet_max_area_def subprocess_run_def tablet_env_def reset_command_def
      str_split_ws_def isspace_def)

lemma tablet_query:
  "obtain_device_area tablet_env d None False cmds =
     (Inr ''10000x6000'', cmds @ [reset_command d, [xsetwacom, ''--get'', d, ''Area'']])"
  by (simp add: obtain_device_area_def tablet_max_area)

lemma main_on_tablet:
  assumes "unit a \<in> set unit_choices" and "align a \<in> set align_choices"
    and "verify_arguments a = None" and "device a = Some d" and "valid_aspect (aspect a)"
  shows "main tablet_env a =
     (case obtain_device_area tablet_env d (device_area a) (dry_run a)
             [[xsetwacom, ''--get'', d, ''Area'']] of
        (Inl out, cmds2) \<Rightarrow> (out, cmds2)
      | (Inr area, cmds2) \<Rightarrow> apply_area tablet_env a d area cmds2)"
proof -
  have "path_exists tablet_env" by (simp add: tablet_env_def)
  then show ?thesis using assms by (simp add: main_late tablet_select)
qed

lemma verify_arguments_None:
  "verify_arguments a = None \<longleftrightarrow>
     (width a \<noteq> None \<and> height a = None \<and> \<not> full a) \<or>
     (width a = None \<and> height a \<noteq> None \<and> \<not> full a) \<or>
     (width a = None \<and> height a = None \<and> full a)"
  by (auto simp: verify_arguments_def Let_def)



lemma to_lines_total:
  assumes "verify_arguments a = None" and "unit a \<in> set unit_choices"
  shows "\<exists>w0 h0. to_lines a = Inr (w0, h0)"
  using assms
  by (auto simp: verify_arguments_None to_lines_def unit_choices_def)


lemma calc_size_wide: "calc_size False (Some 20000) None 16 9 10000 6000 = Inr (20000, 11250)"
  by (simp add: calc_size_def float_div_def)

lemma calc_size_full: "calc_size True w0 h0 16 9 10000 6000 = Inr (10000, 5625)"
  by (simp add: calc_size_def float_div_def)

lemma run_bottomright:
  "main tablet_env
     (default_args\<lparr>device_area := Some ''10000x6000'', width := Some 20000, unit := ''lines'',
        align := ''bottomright''\<rparr>) =
     (Return,
      [[xsetwacom, ''--get'', ''10'', ''Area''],
       [xsetwacom, ''--set'', ''10'', ''Area'', ''-10000 -5250 10000 6000'']])"
proof -
  let ?a = "default_args\<lparr>device_area := Some ''10000x6000'', width := Some 20000,
    unit := ''lines'', align := ''bottomright''\<rparr>"
  have off: "calc_offset ''bottomright'' 10000 6000 20000 11250 = (- 10000, - 5250)"
    by (simp add: calc_offset_def Let_def)
  have chk: "check_bounds 10000 6000 20000 11250 (- 10000) (- 5250) =
      Inr (- 10000, - 5250, 10000, 6000)"
    by (simp add: check_bounds_def Let_def round2_values)
  have comp: "compute_area ?a ''10000x6000'' = Inr (- 10000, - 5250, 10000, 6000)"
    by (simp add: compute_area_def to_lines_def default_args_def convert_aspect_16_9
        convert_size_values calc_size_wide off chk)
  have ap: "apply_area tablet_env ?a ''10'' ''10000x6000'' cmds =
      (Return, cmds @ [[xsetwacom, ''--set'', ''10'', ''Area'', ''-10000 -5250 10000 6000'']])"
    for cmds
  proof -
    have "dry_run ?a = False" by (simp add: default_args_def)
    then show ?thesis
      by (simp add: apply_area_def comp set_area_cmds area_command_def str_int_values)
  qed
  have "main tablet_env ?a =
      apply_area tablet_env ?a ''10'' ''10000x6000'' [[xsetwacom, ''--get'', ''10'', ''Area'']]"
    by (subst main_on_tablet [where d = "''10''"])
      (simp_all add: default_args_def unit_choices_def align_choices_def verify_arguments_None
        valid_aspect_16_9 obtain_device_area_def valid_device_area_values)
  then show ?thesis by (simp add: ap)
qed

lemma apply_center_wide:
  "apply_area env
     (default_args\<lparr>device_area := Some ''10000x6000'', width := Some 20000, unit := ''lines''\<rparr>)
     d ''10000x6000'' cmds = (Exit Width_too_big, cmds)"
proof -
  have off: "calc_offset ''center'' 10000 6000 20000 11250 = (- 5000, - 2625)"
    by (simp add: calc_offset_def Let_def)
  have chk: "check_bounds 10000 6000 20000 11250 (- 5000) (- 2625) = Inl Width_too_big"
    by (simp add: check_bounds_def Let_def round2_values)
  show ?thesis
    by (simp add: apply_area_def compute_area_def to_lines_def default_args_def
        convert_aspect_16_9 convert_size_values calc_size_wide off chk)
qed

lemma run_center_wide_query:
  "main tablet_env (default_args\<lparr>width := Some 20000, unit := ''lines''\<rparr>) =
     (Exit Width_too_big,
      [[xsetwacom, ''--get'', ''10'', ''Area''],
       [xsetwacom, ''--set'', ''10'', ''Area'', ''-1 -1 -1 -1''],
       [xsetwacom, ''--get'', ''10'', ''Area'']])"
proof -
  let ?a = "default_args\<lparr>width := Some 20000, unit := ''lines''\<rparr>"
  have off: "calc_offset ''center'' 10000 6000 20000 11250 = (- 5000, - 2625)"
    by (simp add: calc_offset_def Let_def)
  have chk: "check_bounds 10000 6000 20000 11250 (- 5000) (- 2625) = Inl Width_too_big"
    by (simp add: check_bounds_def Let_def round2_values)
  have ap: "apply_area tablet_env ?a ''10'' ''10000x6000'' cmds = (Exit Width_too_big, cmds)"
    for cmds
    by (simp add: apply_area_def compute_area_def to_lines_def default_args_def
        convert_aspect_16_9 convert_size_values calc_size_wide off chk)
  have "main tablet_env ?a =
      apply_area tablet_env ?a ''10'' ''10000x6000''
        [[xsetwacom, ''--get'', ''10'', ''Area''], reset_command ''10'',
         [xsetwacom, ''--get'', ''10'', ''Area'']]"
    by (subst main_on_tablet [where d = "''10''"])
      (simp_all add: default_args_def unit_choices_def align_choices_def verify_arguments_None
        valid_aspect_16_9 tablet_query)
  then show ?thesis by (simp add: ap reset_command_def)
qed

lemma run_full_query:
  "main tablet_env (default_args\<lparr>full := True\<rparr>) =
     (Return,
      [[xsetwacom, ''--get'', ''10'', ''Area''],
       [xsetwacom, ''--set'', ''10'', ''Area'', ''-1 -1 -1 -1''],
       [xsetwacom, ''--get'', ''10'', ''Area''],
       [xsetwacom, ''--set'', ''10'', ''Area'', ''0 188 10000 5813'']])"
proof -
  let ?a = "default_args\<lparr>full := True\<rparr>"
  have off: "calc_offset ''center'' 10000 6000 10000 5625 = (0, 375 / 2)"
    by (simp add: calc_offset_def Let_def)
  have chk: "check_bounds 10000 6000 10000 5625 0 (375 / 2) = Inr (0, 188, 10000, 5813)"
    by (simp add: check_bounds_def Let_def round2_values)
  have comp: "compute_area ?a ''10000x6000'' = Inr (0, 188, 10000, 5813)"
    by (simp add: compute_area_def to_lines_def default_args_def convert_aspect_16_9
        convert_size_values calc_size_full off chk)
  have ap: "apply_area tablet_env ?a ''10'' ''10000x6000'' cmds =
      (Return, cmds @ [[xsetwacom, ''--set'', ''10'', ''Area'', ''0 188 10000 5813'']])"
    for cmds
  proof -
    have "dry_run ?a = False" by (simp add: default_args_def)
    then show ?thesis
      by (simp add: apply_area_def comp set_area_cmds area_command_def str_int_values)
  qed
  have "main tablet_env ?a =
      apply_area tablet_env ?a ''10'' ''10000x6000''
        [[xsetwacom, ''--get'', ''10'', ''Area''], reset_command ''10'',
         [xsetwacom, ''--get'', ''10'', ''Area'']]"
    by (subst main_on_tablet [where d = "''10''"])
      (simp_all add: default_args_def unit_choices_def align_choices_def verify_arguments_None
        valid_aspect_16_9 tablet_query)
  then show ?thesis by (simp add: ap reset_command_def)
qed



section \<open>The bounds check\<close>

text \<open>
  With an alignment of the left or of the centre column, a resolved width that exceeds a
  tablet width of whole lines by at least one line fails the check of line 249: the run
  exits with the width message and runs no further command.
\<close>

lemma width_overflow_left_center:
  assumes "to_lines a = Inr (w0, h0)"
    and "convert_aspect (aspect a) = Inr (sw, sh)"
    and "convert_size area = Inr (tw, th)"
    and "calc_size (full a) w0 h0 sw sh tw th = Inr (w, h)"
    and "tw \<in> \<int>" and "tw + 1 \<le> w"
    and "align a \<in> set [''topleft'', ''top'', ''left'', ''center'', ''bottomleft'', ''bottom'']"
  shows "apply_area env a d area cmds = (Exit Width_too_big, cmds)"
proof -
  obtain ox oy where off: "calc_offset (align a) tw th w h = (ox, oy)"
    by (cases "calc_offset (align a) tw th w h")
  have "ox = 0 \<or> ox = tw / 2 - w / 2"
    using off assms(7) by (auto simp: calc_offset_def Let_def)
  then have "tw + 1 / 2 \<le> ox + w" using assms(6) by auto
  then have "round2 tw < round2 (ox + w)" using assms(5) by (intro round2_half)
  then have "check_bounds tw th w h ox oy = Inl Width_too_big"
    by (simp add: check_bounds_def)
  then show ?thesis
    using assms(1-4) off by (simp add: apply_area_def compute_area_def)
qed

text \<open>
  With an alignment of the right column the horizontal offset is the tablet width minus
  the width, so the far corner is the tablet width whatever the width is, and the check
  of line 249 never gives the width message.
\<close>

lemma right_column_no_width_message:
  assumes "al \<in> set [''topright'', ''right'', ''bottomright'']"
  shows "check_bounds tw th w h (fst (calc_offset al tw th w h)) (snd (calc_offset al tw th w h))
           \<noteq> Inl Width_too_big"
proof -
  have "fst (calc_offset al tw th w h) + w = tw"
    using assms by (auto simp: calc_offset_def Let_def)
  then show ?thesis
    by (simp add: check_bounds_def Let_def)
qed

text \<open>
  Claim C4: a run whose requested width exceeds the tablet width reports the geometry
  error and exits with a non-zero status without writing an area to the device, for any
  alignment.  The code does not do this for the right column.  With the alignment
  \<^verbatim>\<open>bottomright\<close>, a device area of 10000 by 6000 lines and a width of 20000 lines, the
  far corner is the corner of the tablet, both checks pass, and the run ends normally
  after it has written the area \<^verbatim>\<open>-10000 -5250 10000 6000\<close>.
\<close>

theorem width_overflow_written:
  "main tablet_env
     (default_args\<lparr>device_area := Some ''10000x6000'', width := Some 20000, unit := ''lines'',
        align := ''bottomright''\<rparr>) =
     (Return,
      [[xsetwacom, ''--get'', ''10'', ''Area''],
       [xsetwacom, ''--set'', ''10'', ''Area'', ''-10000 -5250 10000 6000'']])"
  by (rule run_bottomright)

theorem width_overflow_written_witness:
  "exit_status
     (fst (main tablet_env
        (default_args\<lparr>device_area := Some ''10000x6000'', width := Some 20000,
           unit := ''lines'', align := ''bottomright''\<rparr>))) = 0 \<and>
   writes
     (snd (main tablet_env
        (default_args\<lparr>device_area := Some ''10000x6000'', width := Some 20000,
           unit := ''lines'', align := ''bottomright''\<rparr>))) =
     [[xsetwacom, ''--set'', ''10'', ''Area'', ''-10000 -5250 10000 6000'']]"
  using width_overflow_written by (simp add: exit_status_def is_write_def)


section \<open>A tablet area with a zero dimension\<close>





section \<open>The verification of the arguments\<close>





section \<open>Strings that are numbers\<close>

lemma digitpart_chars:
  "digitpart cs = Some ds \<Longrightarrow> c \<in> set cs \<Longrightarrow> isdigit c \<or> c = CHR ''_''"
  by (induction cs arbitrary: ds rule: digitpart.induct) (auto split: if_splits)

lemma isdigit_not_mark:
  "isdigit c \<or> c = CHR ''_'' \<Longrightarrow> c \<noteq> CHR ''.'' \<and> c \<noteq> CHR ''e'' \<and> c \<noteq> CHR ''E''"
  by (auto simp: isdigit_def)

lemma unsigned_float_digits:
  assumes "digitpart cs = Some ds"
  shows "unsigned_float cs = Some (real (digits_value ds))"
proof -
  have marks: "\<forall>c \<in> set cs. c \<noteq> CHR ''.'' \<and> c \<noteq> CHR ''e'' \<and> c \<noteq> CHR ''E''"
    using digitpart_chars [OF assms] isdigit_not_mark by blast
  have e1: "takeWhile (\<lambda>c. c \<noteq> CHR ''e'' \<and> c \<noteq> CHR ''E'') cs = cs"
    using marks by (simp add: takeWhile_eq_all_conv)
  have e2: "dropWhile (\<lambda>c. c \<noteq> CHR ''e'' \<and> c \<noteq> CHR ''E'') cs = []"
    using marks by simp
  have d1: "takeWhile (\<lambda>c. c \<noteq> CHR ''.'') cs = cs"
    using marks by (simp add: takeWhile_eq_all_conv)
  have d2: "dropWhile (\<lambda>c. c \<noteq> CHR ''.'') cs = []"
    using marks by simp
  show ?thesis
    by (simp add: unsigned_float_def mantissa_def e1 e2 d1 d2 assms)
qed

lemma float_of_int_string:
  assumes "int_builtin s = Some n"
  shows "float_builtin s = Some (of_int n)"
proof (cases "strip_c s")
  case Nil
  then show ?thesis using assms by (simp add: int_builtin_def signed_digits_def)
next
  case (Cons c cs)
  then show ?thesis
    using assms
    by (auto simp: int_builtin_def signed_digits_def float_builtin_def
        unsigned_float_digits split: if_splits)
qed

lemma valid_aspect_converts:
  assumes "valid_aspect s"
  shows "\<exists>m n :: int. convert_aspect s = Inr (of_int m, of_int n)"
proof -
  from assms obtain w h m n where
    "str_split CHR '':'' s = [w, h]" "int_builtin w = Some m" "int_builtin h = Some n"
    by (auto simp: valid_aspect_def split: list.splits)
  then show ?thesis
    by (auto simp: convert_aspect_def float_of_int_string)
qed





text \<open>
  Claim C10: there are device-area strings whose number of components is not two, such
  as \<^verbatim>\<open>8000\<close> and \<^verbatim>\<open>1x2x3\<close>, that the validation accepts, every component being an integer
  for \<^verbatim>\<open>int\<close>; the run then reaches \<^verbatim>\<open>convert_size\<close>, whose unpacking of exactly two
  components raises ValueError, and nothing catches it.
\<close>

theorem device_area_component_count:
  assumes "unit a \<in> set unit_choices" and "align a \<in> set align_choices" and "path_exists env"
    and "verify_arguments a = None"
    and "select_device env (device a) [] = (Inr d, cmds1)"
    and "valid_aspect (aspect a)"
    and "device_area a = Some s"
    and "valid_device_area s"
    and "length (str_split CHR ''x'' s) \<noteq> 2"
  shows "main env a = (Raise ValueError, cmds1)"
proof -
  obtain w0 h0 where tl: "to_lines a = Inr (w0, h0)"
    using to_lines_total [OF assms(4) assms(1)] by blast
  obtain m n :: int where ca: "convert_aspect (aspect a) = Inr (of_int m, of_int n)"
    using valid_aspect_converts [OF assms(6)] by blast
  have cs: "convert_size s = Inl ValueError"
    using assms(9) by (auto simp: convert_size_def split: list.splits)
  have "apply_area env a d s cmds1 = (Raise ValueError, cmds1)"
    by (simp add: apply_area_def compute_area_def tl ca cs)
  then show ?thesis
    using assms by (simp add: main_late obtain_device_area_def)
qed

theorem device_area_component_count_witness:
  "valid_device_area ''8000'' \<and> length (str_split CHR ''x'' ''8000'') \<noteq> 2 \<and>
   main tablet_env (default_args\<lparr>device_area := Some ''8000'', full := True\<rparr>) =
     (Raise ValueError, [[xsetwacom, ''--get'', ''10'', ''Area'']]) \<and>
   valid_device_area ''1x2x3'' \<and> length (str_split CHR ''x'' ''1x2x3'') \<noteq> 2 \<and>
   main tablet_env (default_args\<lparr>device_area := Some ''1x2x3'', full := True\<rparr>) =
     (Raise ValueError, [[xsetwacom, ''--get'', ''10'', ''Area'']])"
proof -
  let ?a = "\<lambda>s. default_args\<lparr>device_area := Some s, full := True\<rparr>"
  have h1: "unit (?a s) \<in> set unit_choices" and h2: "align (?a s) \<in> set align_choices"
    and h4: "verify_arguments (?a s) = None"
    and h5: "select_device tablet_env (device (?a s)) [] =
      (Inr ''10'', [[xsetwacom, ''--get'', ''10'', ''Area'']])"
    and h6: "valid_aspect (aspect (?a s))"
    and h7: "device_area (?a s) = Some s" for s
    by (simp_all add: default_args_def unit_choices_def align_choices_def verify_arguments_None
        tablet_select valid_aspect_16_9)
  have h3: "path_exists tablet_env" by (simp add: tablet_env_def)
  have l1: "length (str_split CHR ''x'' ''8000'') \<noteq> 2"
    and l2: "length (str_split CHR ''x'' ''1x2x3'') \<noteq> 2"
    by simp_all
  note v = valid_device_area_values(3,4)
  show ?thesis
    using device_area_component_count [OF h1 h2 h3 h4 h5 h6 h7 v(1) l1]
      device_area_component_count [OF h1 h2 h3 h4 h5 h6 h7 v(2) l2] v l1 l2
    by blast
qed


section \<open>Writes to the device\<close>

text \<open>
  Claim C5 says that the device is written at most once in a run, only after the
  rectangle has passed validation, and that a failing run writes nothing.  When no device
  area is given, \<^verbatim>\<open>get_tablet_max_area\<close> resets the area of the device before reading it:
  a run that then fails the bounds check has written once, and a run that succeeds has
  written twice.
\<close>

theorem device_write_counterexample:
  "fst (main tablet_env (default_args\<lparr>width := Some 20000, unit := ''lines''\<rparr>)) =
     Exit Width_too_big \<and>
   writes (snd (main tablet_env (default_args\<lparr>width := Some 20000, unit := ''lines''\<rparr>))) =
     [[xsetwacom, ''--set'', ''10'', ''Area'', ''-1 -1 -1 -1'']] \<and>
   fst (main tablet_env (default_args\<lparr>full := True\<rparr>)) = Return \<and>
   writes (snd (main tablet_env (default_args\<lparr>full := True\<rparr>))) =
     [[xsetwacom, ''--set'', ''10'', ''Area'', ''-1 -1 -1 -1''],
      [xsetwacom, ''--set'', ''10'', ''Area'', ''0 188 10000 5813'']]"
  by (simp add: run_center_wide_query run_full_query is_write_def)

text \<open>
  Claim C5 as amended: in every run the computed rectangle is written to the device at
  most once, as the last command of the run and only after it has passed the bounds
  check.  It is not the only write: when no \<^verbatim>\<open>--device-area\<close> is given and the run is not a
  dry run, the query of the tablet area first sets the area of the device to
  \<^verbatim>\<open>-1 -1 -1 -1\<close>, before any validation of the rectangle.  A run that fails has written
  nothing when \<^verbatim>\<open>--device-area\<close> is given or the run is a dry run, and otherwise at most
  that reset.
\<close>

theorem area_written_once_after_validation:
  "\<exists>d. (\<forall>d' cmds1. select_device env (device a) [] = (Inr d', cmds1) \<longrightarrow> d' = d) \<and>
       (fst (main env a) \<noteq> Return \<longrightarrow>
          writes (snd (main env a)) = [] \<or>
          device_area a = None \<and> \<not> dry_run a \<and> writes (snd (main env a)) = [reset_command d]) \<and>
       (fst (main env a) = Return \<longrightarrow>
          (\<exists>area r. compute_area a area = Inr r \<and>
             (\<forall>s. device_area a = Some s \<longrightarrow> area = s) \<and>
             writes (snd (main env a)) =
               (if device_area a = None \<and> \<not> dry_run a then [reset_command d] else []) @
               (if dry_run a then [] else [area_command d r]) \<and>
             (\<not> dry_run a \<longrightarrow> last (snd (main env a)) = area_command d r)))"
proof -
  define d where "d = (case fst (select_device env (device a) []) of Inr d' \<Rightarrow> d' | Inl _ \<Rightarrow> [])"
  have sel: "\<forall>d' cmds1. select_device env (device a) [] = (Inr d', cmds1) \<longrightarrow> d' = d"
    by (simp add: d_def)
  let ?resets = "if device_area a = None \<and> \<not> dry_run a then [reset_command d] else []"
  have "(fst (main env a) \<noteq> Return \<longrightarrow>
          writes (snd (main env a)) = [] \<or>
          device_area a = None \<and> \<not> dry_run a \<and> writes (snd (main env a)) = [reset_command d]) \<and>
       (fst (main env a) = Return \<longrightarrow>
          (\<exists>area r. compute_area a area = Inr r \<and>
             (\<forall>s. device_area a = Some s \<longrightarrow> area = s) \<and>
             writes (snd (main env a)) = ?resets @ (if dry_run a then [] else [area_command d r]) \<and>
             (\<not> dry_run a \<longrightarrow> last (snd (main env a)) = area_command d r)))"
  proof (cases rule: main_stages [of env a])
    case (early m)
    then show ?thesis by simp
  next
    case (stopped out cmds1)
    then show ?thesis by simp
  next
    case (no_area d' cmds1 out cmds2)
    have d': "d' = d" using sel no_area(1) by blast
    have "writes cmds2 = ?resets"
      using obtain_device_area_writes [of env d "device_area a" "dry_run a" cmds1] no_area
      by (simp add: d')
    then show ?thesis using no_area by auto
  next
    case (area d' cmds1 area cmds2)
    have d': "d' = d" using sel area(1) by blast
    have w2: "writes cmds2 = ?resets"
      using obtain_device_area_writes [of env d "device_area a" "dry_run a" cmds1] area
      by (simp add: d')
    have given: "\<forall>s. device_area a = Some s \<longrightarrow> area = s"
      using area(3) obtain_device_area_given by metis
    from apply_area_cases [of a area env d cmds2] show ?thesis
    proof (elim disjE exE conjE)
      fix out assume "out \<noteq> Return" "apply_area env a d area cmds2 = (out, cmds2)"
      then show ?thesis using area w2 by (auto simp: d')
    next
      fix r assume r: "compute_area a area = Inr r"
        "apply_area env a d area cmds2 =
           (Return, if dry_run a then cmds2 else cmds2 @ [area_command d r])"
      have m: "main env a = (Return, if dry_run a then cmds2 else cmds2 @ [area_command d r])"
        using area r by (simp add: d')
      have "\<exists>area r. compute_area a area = Inr r \<and>
               (\<forall>s. device_area a = Some s \<longrightarrow> area = s) \<and>
               writes (snd (main env a)) =
                 ?resets @ (if dry_run a then [] else [area_command d r]) \<and>
               (\<not> dry_run a \<longrightarrow> last (snd (main env a)) = area_command d r)"
        using r(1) w2 given by (intro exI [of _ area] exI [of _ r]) (simp add: m)
      then show ?thesis using m by simp
    qed
  qed
  then show ?thesis using sel by blast
qed

theorem area_written_once_after_validation_witness:
  "fst (main tablet_env (default_args\<lparr>width := Some 20000, unit := ''lines''\<rparr>)) \<noteq> Return \<and>
   length (writes (snd (main tablet_env (default_args\<lparr>width := Some 20000, unit := ''lines''\<rparr>))))
     \<le> 1 \<and>
   fst (main tablet_env (default_args\<lparr>full := True\<rparr>)) = Return \<and>
   \<not> dry_run (default_args\<lparr>full := True\<rparr>) \<and>
   is_write (last (snd (main tablet_env (default_args\<lparr>full := True\<rparr>))))"
proof -
  let ?a = "default_args\<lparr>width := Some 20000, unit := ''lines''\<rparr>"
  let ?b = "default_args\<lparr>full := True\<rparr>"
  have h1: "fst (main tablet_env ?a) \<noteq> Return" by (simp add: run_center_wide_query)
  have h2: "fst (main tablet_env ?b) = Return" by (simp add: run_full_query)
  have h3: "\<not> dry_run ?b" by (simp add: default_args_def)
  from area_written_once_after_validation [of tablet_env ?a] h1
  have w: "length (writes (snd (main tablet_env ?a))) \<le> 1" by auto
  from area_written_once_after_validation [of tablet_env ?b] h2 h3
  have "is_write (last (snd (main tablet_env ?b)))" by auto
  then show ?thesis using h1 h2 h3 w by simp
qed

end
